theory Spec2Isabelle
  imports Complex_Main "HOL-Library.Word"
begin

section \<open>Frame quality and composition scoring: the embedding\<close>

text \<open>
  The two Python modules \<^verbatim>\<open>yolo_service.py\<close> (REST service, single and batch
  analysis) and \<^verbatim>\<open>yolo_analyzer.py\<close> (thumbnail selection) are embedded
  shallowly. Python floats are idealised as the reals. Exceptions are values of
  type \<open>exn\<close>; a function that can raise returns \<open>exn + 'a\<close>. The libraries the
  code calls (file system, image decoding, colour conversion, the Laplacian
  filter, the YOLO model) are parameters, collected in a record per module.
\<close>

subsection \<open>Exceptions and library data\<close>

datatype exn =
    FileNotFoundError string
  | ValueError string
  | KeyError int
  | RuntimeError exn
  | LibraryError string

text \<open>A grayscale grid: rows of \<^verbatim>\<open>uint8\<close> pixels.\<close>

type_synonym gray = "8 word list list"

text \<open>\<^verbatim>\<open>np.mean\<close>, \<^verbatim>\<open>ndarray.var\<close> and \<^verbatim>\<open>ndarray.std\<close> over all entries of an array.\<close>

definition np_mean :: "real list \<Rightarrow> real" where
  "np_mean xs = sum_list xs / real (length xs)"

definition np_var :: "real list \<Rightarrow> real" where
  "np_var xs = np_mean (map (\<lambda>x. (x - np_mean xs)\<^sup>2) xs)"

definition np_std :: "real list \<Rightarrow> real" where
  "np_std xs = sqrt (np_var xs)"

definition pixels :: "gray \<Rightarrow> real list" where
  "pixels g = map (\<lambda>p. real (unat p)) (concat g)"

text \<open>One box of an ultralytics result, and one result.\<close>

record yolo_box =
  cls :: int
  conf :: real
  xyxy :: "real list"
  xyxyn :: "real list"

record yolo_result =
  boxes :: "yolo_box list option"

text \<open>The OpenCV and file-system calls both modules make.\<close>

record 'img cv2 =
  os_path_exists :: "string \<Rightarrow> bool"
  imread :: "string \<Rightarrow> 'img option"
  cvtColor :: "'img \<Rightarrow> exn + gray"
  Laplacian :: "gray \<Rightarrow> real list list"
  shape :: "'img \<Rightarrow> nat \<times> nat \<times> nat"

subsection \<open>\<^verbatim>\<open>yolo_service.py\<close>\<close>

record FrameAnalysisRequest =
  frame_path :: string
  frame_index :: int
  timestamp :: real

record DetectedObject =
  class_name :: string
  confidence :: real
  bbox :: "real list"

record FrameAnalysisResponse =
  r_frame_index :: int
  r_timestamp :: real
  has_product :: bool
  quality_score :: real
  brightness_score :: real
  blur_score :: real
  detected_objects :: "DetectedObject list"

text \<open>
  The service object: the loaded model (called with the image and the
  confidence threshold), its class-name dictionary, and the threshold.
\<close>

record 'img YOLOService =
  confidence_threshold :: real
  model :: "'img \<Rightarrow> real \<Rightarrow> exn + yolo_result list"
  names :: "int \<rightharpoonup> string"

definition YOLOService_product_classes :: "string set" where
  "YOLOService_product_classes = {
     ''person'', ''bicycle'', ''car'', ''motorcycle'', ''airplane'', ''bus'', ''train'', ''truck'', ''boat'',
     ''bottle'', ''wine glass'', ''cup'', ''fork'', ''knife'', ''spoon'', ''bowl'', ''banana'', ''apple'',
     ''sandwich'', ''orange'', ''broccoli'', ''carrot'', ''hot dog'', ''pizza'', ''donut'', ''cake'',
     ''chair'', ''couch'', ''potted plant'', ''bed'', ''dining table'', ''toilet'', ''tv'', ''laptop'',
     ''mouse'', ''remote'', ''keyboard'', ''cell phone'', ''microwave'', ''oven'', ''toaster'', ''sink'',
     ''refrigerator'', ''book'', ''clock'', ''vase'', ''scissors'', ''teddy bear'', ''hair drier'',
     ''toothbrush'', ''handbag'', ''tie'', ''suitcase'', ''frisbee'', ''skis'', ''snowboard'',
     ''sports ball'', ''kite'', ''baseball bat'', ''baseball glove'', ''skateboard'', ''surfboard'',
     ''tennis racket'', ''backpack'', ''umbrella'', ''shoe''}"

text \<open>\<^verbatim>\<open>calculate_blur_score\<close>: any exception inside gives 0.5.\<close>

definition calculate_blur_score :: "'img cv2 \<Rightarrow> 'img \<Rightarrow> real" where
  "calculate_blur_score cv img =
     (case cvtColor cv img of
        Inl e \<Rightarrow> 0.5
      | Inr gray \<Rightarrow>
          (let laplacian_var = np_var (concat (Laplacian cv gray))
           in min (laplacian_var / 1000.0) 1.0))"

text \<open>\<^verbatim>\<open>calculate_brightness_score\<close>: any exception inside gives 0.5.\<close>

definition calculate_brightness_score :: "'img cv2 \<Rightarrow> 'img \<Rightarrow> real" where
  "calculate_brightness_score cv img =
     (case cvtColor cv img of
        Inl e \<Rightarrow> 0.5
      | Inr gray \<Rightarrow>
          (let mean_brightness = np_mean (pixels gray) / 255.0;
               brightness_score =
                 (if 0.3 \<le> mean_brightness \<and> mean_brightness \<le> 0.8 then 1.0
                  else if mean_brightness < 0.3 then mean_brightness / 0.3
                  else (1.0 - mean_brightness) / 0.2)
           in max 0.0 (min 1.0 brightness_score)))"

text \<open>
  The inner loop of \<^verbatim>\<open>analyze_frame\<close> over the boxes of one result; the
  accumulator is \<open>(detected_objects, has_product)\<close>. A class id missing from
  \<^verbatim>\<open>model.names\<close> raises.
\<close>

fun service_boxes ::
  "(int \<rightharpoonup> string) \<Rightarrow> yolo_box list \<Rightarrow> DetectedObject list \<times> bool
     \<Rightarrow> exn + DetectedObject list \<times> bool" where
  "service_boxes nm [] acc = Inr acc"
| "service_boxes nm (box # rest) (objs, hp) =
     (case nm (cls box) of
        None \<Rightarrow> Inl (KeyError (cls box))
      | Some cn \<Rightarrow>
          service_boxes nm rest
            (objs @ [\<lparr>class_name = cn, confidence = conf box, bbox = xyxy box\<rparr>],
             (if cn \<in> YOLOService_product_classes then True else hp)))"

text \<open>The outer loop over the results.\<close>

fun service_results ::
  "(int \<rightharpoonup> string) \<Rightarrow> yolo_result list \<Rightarrow> DetectedObject list \<times> bool
     \<Rightarrow> exn + DetectedObject list \<times> bool" where
  "service_results nm [] acc = Inr acc"
| "service_results nm (result # rest) acc =
     (case boxes result of
        None \<Rightarrow> service_results nm rest acc
      | Some bs \<Rightarrow>
          (case service_boxes nm bs acc of
             Inl e \<Rightarrow> Inl e
           | Inr acc' \<Rightarrow> service_results nm rest acc'))"

text \<open>The body of the \<^verbatim>\<open>try\<close> block of \<^verbatim>\<open>YOLOService.analyze_frame\<close>.\<close>

definition analyze_frame_try ::
  "'img cv2 \<Rightarrow> 'img YOLOService \<Rightarrow> string \<Rightarrow> int \<Rightarrow> real \<Rightarrow> exn + FrameAnalysisResponse" where
  "analyze_frame_try cv self path idx ts =
     (if \<not> os_path_exists cv path then Inl (FileNotFoundError path)
      else case imread cv path of
        None \<Rightarrow> Inl (ValueError path)
      | Some img \<Rightarrow>
          (case model self img (confidence_threshold self) of
             Inl e \<Rightarrow> Inl e
           | Inr results \<Rightarrow>
               (case service_results (names self) results ([], False) of
                  Inl e \<Rightarrow> Inl e
                | Inr (objs, hp) \<Rightarrow>
                    (let blur = calculate_blur_score cv img;
                         brightness = calculate_brightness_score cv img;
                         detection_score = (if hp then 1.0 else 0.3);
                         quality = detection_score * 0.4 + blur * 0.3 + brightness * 0.3
                     in Inr \<lparr>r_frame_index = idx, r_timestamp = ts, has_product = hp,
                              quality_score = quality, brightness_score = brightness,
                              blur_score = blur, detected_objects = objs\<rparr>))))"

text \<open>The default response of the \<^verbatim>\<open>except\<close> branches.\<close>

definition failed_response :: "int \<Rightarrow> real \<Rightarrow> FrameAnalysisResponse" where
  "failed_response idx ts =
     \<lparr>r_frame_index = idx, r_timestamp = ts, has_product = False,
      quality_score = 0.0, brightness_score = 0.0, blur_score = 0.0,
      detected_objects = []\<rparr>"

text \<open>\<^verbatim>\<open>YOLOService.analyze_frame\<close>: the \<^verbatim>\<open>try\<close> block under \<^verbatim>\<open>except Exception\<close>.\<close>

definition YOLOService_analyze_frame ::
  "'img cv2 \<Rightarrow> 'img YOLOService \<Rightarrow> string \<Rightarrow> int \<Rightarrow> real \<Rightarrow> FrameAnalysisResponse" where
  "YOLOService_analyze_frame cv self path idx ts =
     (case analyze_frame_try cv self path idx ts of
        Inl e \<Rightarrow> failed_response idx ts
      | Inr r \<Rightarrow> r)"

text \<open>
  The endpoints. The module-level \<^verbatim>\<open>yolo_service\<close> is \<open>None\<close> until start-up
  has run. The service method returns a response on every path, so the
  \<^verbatim>\<open>except\<close> branches of the endpoints have nothing to catch.
\<close>

datatype HTTPException = HTTPException int string

definition analyze_frame ::
  "'img cv2 \<Rightarrow> 'img YOLOService option \<Rightarrow> FrameAnalysisRequest
     \<Rightarrow> HTTPException + FrameAnalysisResponse" where
  "analyze_frame cv yolo_service request =
     (case yolo_service of
        None \<Rightarrow> Inl (HTTPException 503 ''YOLO service not initialized'')
      | Some svc \<Rightarrow>
          Inr (YOLOService_analyze_frame cv svc
                 (frame_path request) (frame_index request) (timestamp request)))"

fun batch_loop ::
  "'img cv2 \<Rightarrow> 'img YOLOService \<Rightarrow> FrameAnalysisRequest list
     \<Rightarrow> FrameAnalysisResponse list \<Rightarrow> FrameAnalysisResponse list" where
  "batch_loop cv svc [] results = results"
| "batch_loop cv svc (request # rest) results =
     batch_loop cv svc rest
       (results @ [YOLOService_analyze_frame cv svc
                     (frame_path request) (frame_index request) (timestamp request)])"

definition analyze_batch ::
  "'img cv2 \<Rightarrow> 'img YOLOService option \<Rightarrow> FrameAnalysisRequest list
     \<Rightarrow> HTTPException + FrameAnalysisResponse list" where
  "analyze_batch cv yolo_service requests =
     (case yolo_service of
        None \<Rightarrow> Inl (HTTPException 503 ''YOLO service not initialized'')
      | Some svc \<Rightarrow> Inr (batch_loop cv svc requests []))"

subsection \<open>\<^verbatim>\<open>yolo_analyzer.py\<close>\<close>

text \<open>The dictionaries the analyzer builds, as records.\<close>

record bbox_dict =
  bbox_x :: real
  bbox_y :: real
  bbox_width :: real
  bbox_height :: real

record detection =
  det_class_name :: string
  det_confidence :: real
  det_bbox :: bbox_dict

record quality_metrics =
  m_blur_score :: real
  m_brightness_score :: real
  m_contrast_score :: real
  m_overall_quality :: real

record analysis =
  a_detected_objects :: "detection list"
  a_has_product :: bool
  a_quality_score :: real
  a_blur_score :: real
  a_brightness_score :: real
  a_composition_score :: real

text \<open>
  The analyzer object: the model is called with the image and both
  thresholds.
\<close>

record 'img FrameAnalyzer =
  fa_confidence_threshold :: real
  fa_iou_threshold :: real
  fa_model :: "'img \<Rightarrow> real \<Rightarrow> real \<Rightarrow> exn + yolo_result list"
  fa_names :: "int \<rightharpoonup> string"

definition FrameAnalyzer_product_classes :: "string set" where
  "FrameAnalyzer_product_classes = {
     ''person'', ''bicycle'', ''car'', ''motorcycle'', ''airplane'', ''bus'', ''train'', ''truck'', ''boat'',
     ''bottle'', ''wine glass'', ''cup'', ''fork'', ''knife'', ''spoon'', ''bowl'', ''banana'', ''apple'',
     ''sandwich'', ''orange'', ''broccoli'', ''carrot'', ''hot dog'', ''pizza'', ''donut'', ''cake'',
     ''chair'', ''couch'', ''potted plant'', ''bed'', ''dining table'', ''toilet'', ''tv'', ''laptop'',
     ''mouse'', ''remote'', ''keyboard'', ''cell phone'', ''microwave'', ''oven'', ''toaster'', ''sink'',
     ''refrigerator'', ''book'', ''clock'', ''vase'', ''scissors'', ''teddy bear'', ''hair drier'',
     ''toothbrush'', ''handbag'', ''tie'', ''suitcase'', ''frisbee'', ''skis'', ''snowboard'',
     ''sports ball'', ''kite'', ''baseball bat'', ''baseball glove'', ''skateboard'', ''surfboard'',
     ''tennis racket'', ''backpack'', ''umbrella''}"

text \<open>
  \<^verbatim>\<open>_calculate_quality_metrics\<close>. It has no \<^verbatim>\<open>try\<close> of its own: a failing
  colour conversion propagates.
\<close>

definition calculate_quality_metrics :: "'img cv2 \<Rightarrow> 'img \<Rightarrow> exn + quality_metrics" where
  "calculate_quality_metrics cv img =
     (case cvtColor cv img of
        Inl e \<Rightarrow> Inl e
      | Inr gray \<Rightarrow>
          (let blur_score = np_var (concat (Laplacian cv gray));
               normalized_blur = min (blur_score / 1000.0) 1.0;
               blur_score_final = 1.0 - normalized_blur;
               brightness = np_mean (pixels gray) / 255.0;
               brightness_score =
                 (if brightness < 0.2 then brightness * 2.5
                  else if brightness > 0.8 then (1.0 - brightness) * 5
                  else 1.0);
               brightness_score = max 0.0 (min 1.0 brightness_score);
               contrast = np_std (pixels gray) / 255.0;
               contrast_score = min (contrast * 2) 1.0;
               overall_quality =
                 (1.0 - blur_score_final) * 0.4 + brightness_score * 0.3 + contrast_score * 0.3
           in Inr \<lparr>m_blur_score = blur_score_final, m_brightness_score = brightness_score,
                    m_contrast_score = contrast_score, m_overall_quality = overall_quality\<rparr>))"

text \<open>
  The loop of \<^verbatim>\<open>_calculate_composition_score\<close>; the accumulator is
  \<open>(composition_score, max_confidence)\<close>.
\<close>

fun composition_loop :: "detection list \<Rightarrow> real \<times> real \<Rightarrow> real \<times> real" where
  "composition_loop [] acc = acc"
| "composition_loop (obj # rest) (composition_score, max_confidence) =
     (let bbox = det_bbox obj;
          confidence = det_confidence obj;
          obj_center_x = bbox_x bbox + bbox_width bbox / 2;
          obj_center_y = bbox_y bbox + bbox_height bbox / 2;
          distance_from_center = sqrt ((obj_center_x - 0.5)\<^sup>2 + (obj_center_y - 0.5)\<^sup>2);
          center_score = 1.0 - min (distance_from_center * 2) 1.0;
          obj_area = bbox_width bbox * bbox_height bbox;
          size_score =
            (if 0.1 \<le> obj_area \<and> obj_area \<le> 0.6 then 1.0
             else if obj_area < 0.1 then obj_area * 10
             else max 0.2 (1.0 - (obj_area - 0.6) * 2));
          obj_score = (center_score * 0.4 + size_score * 0.6) * confidence
      in composition_loop rest (max composition_score obj_score, max max_confidence confidence))"

text \<open>
  \<^verbatim>\<open>_calculate_composition_score\<close>. The height and width it reads from
  \<open>image_shape\<close> are not used afterwards.
\<close>

definition calculate_composition_score :: "detection list \<Rightarrow> nat \<times> nat \<times> nat \<Rightarrow> real" where
  "calculate_composition_score objs image_shape =
     (if objs = [] then 0.3
      else
        (case composition_loop objs (0.0, 0.0) of
           (composition_score, max_confidence) \<Rightarrow>
             (let composition_score =
                    (if max_confidence > 0.8 then composition_score * 1.2 else composition_score)
              in min composition_score 1.0)))"

text \<open>
  The loop of \<^verbatim>\<open>FrameAnalyzer.analyze_frame\<close> over the boxes of the first
  result. Unpacking \<^verbatim>\<open>xyxyn\<close> into four names raises unless it has four
  entries.
\<close>

fun analyzer_boxes ::
  "(int \<rightharpoonup> string) \<Rightarrow> yolo_box list \<Rightarrow> detection list \<times> bool
     \<Rightarrow> exn + detection list \<times> bool" where
  "analyzer_boxes nm [] acc = Inr acc"
| "analyzer_boxes nm (box # rest) (objs, hp) =
     (case nm (cls box) of
        None \<Rightarrow> Inl (KeyError (cls box))
      | Some cn \<Rightarrow>
          (case xyxyn box of
             [x1, y1, x2, y2] \<Rightarrow>
               analyzer_boxes nm rest
                 (objs @ [\<lparr>det_class_name = cn, det_confidence = conf box,
                           det_bbox = \<lparr>bbox_x = x1, bbox_y = y1,
                                       bbox_width = x2 - x1, bbox_height = y2 - y1\<rparr>\<rparr>],
                  (if cn \<in> FrameAnalyzer_product_classes then True else hp))
           | _ \<Rightarrow> Inl (ValueError ''unpack'')))"

text \<open>The body of the \<^verbatim>\<open>try\<close> block of \<^verbatim>\<open>FrameAnalyzer.analyze_frame\<close>.\<close>

definition FrameAnalyzer_analyze_frame_try ::
  "'img cv2 \<Rightarrow> 'img FrameAnalyzer \<Rightarrow> string \<Rightarrow> exn + analysis" where
  "FrameAnalyzer_analyze_frame_try cv self image_path =
     (case imread cv image_path of
        None \<Rightarrow> Inl (ValueError image_path)
      | Some img \<Rightarrow>
          (case fa_model self img (fa_confidence_threshold self) (fa_iou_threshold self) of
             Inl e \<Rightarrow> Inl e
           | Inr results \<Rightarrow>
               (case (case results of
                        [] \<Rightarrow> Inr ([], False)
                      | r0 # _ \<Rightarrow>
                          (case boxes r0 of
                             None \<Rightarrow> Inr ([], False)
                           | Some bs \<Rightarrow> analyzer_boxes (fa_names self) bs ([], False))) of
                  Inl e \<Rightarrow> Inl e
                | Inr (objs, hp) \<Rightarrow>
                    (case calculate_quality_metrics cv img of
                       Inl e \<Rightarrow> Inl e
                     | Inr qm \<Rightarrow>
                         (let composition_score = calculate_composition_score objs (shape cv img)
                          in Inr \<lparr>a_detected_objects = objs, a_has_product = hp,
                                   a_quality_score = m_overall_quality qm,
                                   a_blur_score = m_blur_score qm,
                                   a_brightness_score = m_brightness_score qm,
                                   a_composition_score = composition_score\<rparr>)))))"

text \<open>\<^verbatim>\<open>FrameAnalyzer.analyze_frame\<close>: every exception is re-raised as a \<^verbatim>\<open>RuntimeError\<close>.\<close>

definition FrameAnalyzer_analyze_frame ::
  "'img cv2 \<Rightarrow> 'img FrameAnalyzer \<Rightarrow> string \<Rightarrow> exn + analysis" where
  "FrameAnalyzer_analyze_frame cv self image_path =
     (case FrameAnalyzer_analyze_frame_try cv self image_path of
        Inl e \<Rightarrow> Inl (RuntimeError e)
      | Inr a \<Rightarrow> Inr a)"

subsection \<open>The composition score as the specification words it\<close>






subsection \<open>A concrete installation, for evaluating the definitions\<close>

text \<open>
  Images are numbered. \<^verbatim>\<open>a.jpg\<close> shows a bottle, \<^verbatim>\<open>b.jpg\<close> makes the model
  fail, \<^verbatim>\<open>c.jpg\<close> loads but cannot be converted to grayscale, \<^verbatim>\<open>d.jpg\<close> shows
  nothing the model detects, \<^verbatim>\<open>corrupt.jpg\<close> exists but does not decode, and no
  other file exists.
\<close>

definition demo_cv :: "nat cv2" where
  "demo_cv =
     \<lparr>os_path_exists = (\<lambda>p. p = ''a.jpg'' \<or> p = ''b.jpg'' \<or> p = ''c.jpg''
                               \<or> p = ''d.jpg'' \<or> p = ''corrupt.jpg''),
      imread = (\<lambda>p. if p = ''a.jpg'' then Some 0 else if p = ''b.jpg'' then Some 1
                     else if p = ''c.jpg'' then Some 2 else if p = ''d.jpg'' then Some 3
                     else None),
      cvtColor = (\<lambda>i. if i = 2 then Inl (LibraryError ''cvtColor'') else Inr [[100, 150]]),
      Laplacian = (\<lambda>g. [[10, -10]]),
      shape = (\<lambda>i. (1, 2, 3))\<rparr>"

definition demo_box :: yolo_box where
  "demo_box = \<lparr>cls = 39, conf = 0.9, xyxy = [40, 40, 60, 60], xyxyn = [0.4, 0.4, 0.6, 0.6]\<rparr>"

definition demo_service :: "nat YOLOService" where
  "demo_service =
     \<lparr>confidence_threshold = 0.5,
      model = (\<lambda>i c. if i = 1 then Inl (LibraryError ''inference'')
                      else if i = 0 then Inr [\<lparr>boxes = Some [demo_box]\<rparr>]
                      else Inr [\<lparr>boxes = None\<rparr>]),
      names = [39 \<mapsto> ''bottle'']\<rparr>"

definition demo_analyzer :: "nat FrameAnalyzer" where
  "demo_analyzer =
     \<lparr>fa_confidence_threshold = 0.5, fa_iou_threshold = 0.5,
      fa_model = (\<lambda>i c u. if i = 1 then Inl (LibraryError ''inference'')
                         else if i = 0 then Inr [\<lparr>boxes = Some [demo_box]\<rparr>]
                         else Inr [\<lparr>boxes = None\<rparr>]),
      fa_names = [39 \<mapsto> ''bottle'']\<rparr>"

definition demo_request :: "string \<Rightarrow> int \<Rightarrow> FrameAnalysisRequest" where
  "demo_request p i = \<lparr>frame_path = p, frame_index = i, timestamp = 1.5\<rparr>"

definition demo_requests :: "FrameAnalysisRequest list" where
  "demo_requests =
     [demo_request ''a.jpg'' 1, demo_request ''d.jpg'' 2, demo_request ''b.jpg'' 3,
      demo_request ''a.jpg'' 4, demo_request ''missing.jpg'' 5]"

section \<open>Shared facts\<close>

lemmas demo_defs = demo_cv_def demo_service_def demo_box_def demo_request_def demo_requests_def
  demo_analyzer_def
lemmas svc_defs = analyze_frame_try_def YOLOService_analyze_frame_def failed_response_def
  calculate_blur_score_def calculate_brightness_score_def np_var_def np_mean_def pixels_def Let_def

lemma np_var_nonneg: "0 \<le> np_var xs"
  unfolding np_var_def np_mean_def
  by (intro divide_nonneg_nonneg sum_list_nonneg) auto

lemma calculate_blur_score_range:
  "0 \<le> calculate_blur_score cv img \<and> calculate_blur_score cv img \<le> 1"
  using np_var_nonneg
  by (auto simp: calculate_blur_score_def Let_def min_def split: sum.splits)

lemma calculate_brightness_score_range:
  "0 \<le> calculate_brightness_score cv img \<and> calculate_brightness_score cv img \<le> 1"
  by (auto simp: calculate_brightness_score_def Let_def split: sum.splits)

lemma batch_loop_map:
  "batch_loop cv svc requests results =
     results @ map (\<lambda>rq. YOLOService_analyze_frame cv svc
                        (frame_path rq) (frame_index rq) (timestamp rq)) requests"
  by (induction requests arbitrary: results) simp_all

lemma analyze_frame_try_fields:
  assumes "analyze_frame_try cv self path idx ts = Inr r"
  shows "r_frame_index r = idx" and "r_timestamp r = ts"
    and "\<exists>img. imread cv path = Some img
           \<and> blur_score r = calculate_blur_score cv img
           \<and> brightness_score r = calculate_brightness_score cv img"
    and "quality_score r =
           (if has_product r then 1.0 else 0.3) * 0.4 + blur_score r * 0.3 + brightness_score r * 0.3"
  using assms
  by (auto simp: analyze_frame_try_def Let_def split: if_splits option.splits sum.splits prod.splits)

lemma YOLOService_analyze_frame_index:
  "r_frame_index (YOLOService_analyze_frame cv self path idx ts) = idx"
  by (auto simp: YOLOService_analyze_frame_def failed_response_def
      dest: analyze_frame_try_fields(1) split: sum.splits)

lemma success_quality_bounds:
  assumes "analyze_frame_try cv self path idx ts = Inr r"
  shows "0.12 \<le> quality_score r \<and> quality_score r \<le> 1.0"
proof -
  from analyze_frame_try_fields(3)[OF assms] obtain img where
    b: "blur_score r = calculate_blur_score cv img" and
    g: "brightness_score r = calculate_brightness_score cv img" by blast
  have "0 \<le> blur_score r" "blur_score r \<le> 1" "0 \<le> brightness_score r" "brightness_score r \<le> 1"
    using calculate_blur_score_range[of cv img] calculate_brightness_score_range[of cv img] b g
    by simp_all
  then show ?thesis
    using analyze_frame_try_fields(4)[OF assms] by (auto split: if_splits)
qed

lemma bottle_in_service_classes: "''bottle'' \<in> YOLOService_product_classes"
  by (simp add: YOLOService_product_classes_def)

lemma demo_a: "YOLOService_analyze_frame demo_cv demo_service ''a.jpg'' i 1.5 =
  \<lparr>r_frame_index = i, r_timestamp = 1.5, has_product = True,
      quality_score = 0.73, brightness_score = 1, blur_score = 0.1,
      detected_objects = [\<lparr>class_name = ''bottle'', confidence = 0.9, bbox = [40,40,60,60]\<rparr>]\<rparr>"
  by (simp add: demo_defs svc_defs bottle_in_service_classes)

lemma demo_try_d: "analyze_frame_try demo_cv demo_service ''d.jpg'' i 1.5 =
  Inr \<lparr>r_frame_index = i, r_timestamp = 1.5, has_product = False,
      quality_score = 0.45, brightness_score = 1, blur_score = 0.1,
      detected_objects = []\<rparr>"
  by (simp add: demo_defs svc_defs)

lemma demo_try_c: "analyze_frame_try demo_cv demo_service ''c.jpg'' i 1.5 =
  Inr \<lparr>r_frame_index = i, r_timestamp = 1.5, has_product = False,
      quality_score = 0.42, brightness_score = 0.5, blur_score = 0.5,
      detected_objects = []\<rparr>"
  by (simp add: demo_defs svc_defs)

lemma demo_try_b: "analyze_frame_try demo_cv demo_service ''b.jpg'' i 1.5 = Inl (LibraryError ''inference'')"
  by (simp add: demo_defs svc_defs)

lemma demo_try_corrupt: "analyze_frame_try demo_cv demo_service ''corrupt.jpg'' i 1.5 = Inl (ValueError ''corrupt.jpg'')"
  by (simp add: demo_defs svc_defs)

lemma demo_try_missing: "analyze_frame_try demo_cv demo_service ''missing.jpg'' i 1.5 = Inl (FileNotFoundError ''missing.jpg'')"
  by (simp add: demo_defs svc_defs)

section \<open>Batch analysis\<close>

text \<open>
  Claim C1. With the service initialised, \<open>analyze_batch\<close> returns a list as
  long as its input; position \<open>i\<close> carries the frame index of request \<open>i\<close> and
  is exactly what the single-frame endpoint returns for request \<open>i\<close> alone, so
  no request influences another position; and where the analysis of request
  \<open>i\<close> raises, position \<open>i\<close> holds the default response for that request.
\<close>

theorem analyze_batch_order_and_isolation:
  "\<exists>rs. analyze_batch cv (Some svc) requests = Inr rs
     \<and> length rs = length requests
     \<and> (\<forall>i<length requests.
          r_frame_index (rs ! i) = frame_index (requests ! i)
        \<and> analyze_frame cv (Some svc) (requests ! i) = Inr (rs ! i)
        \<and> ((\<exists>e. analyze_frame_try cv svc (frame_path (requests ! i))
                   (frame_index (requests ! i)) (timestamp (requests ! i)) = Inl e)
             \<longrightarrow> rs ! i = failed_response (frame_index (requests ! i)) (timestamp (requests ! i))))"
proof -
  let ?one = "\<lambda>rq. YOLOService_analyze_frame cv svc (frame_path rq) (frame_index rq) (timestamp rq)"
  have run: "analyze_batch cv (Some svc) requests = Inr (map ?one requests)"
    by (simp add: analyze_batch_def batch_loop_map)
  have single: "analyze_frame cv (Some svc) rq = Inr (?one rq)" for rq :: FrameAnalysisRequest
    by (simp add: analyze_frame_def)
  have failed: "?one rq = failed_response (frame_index rq) (timestamp rq)"
    if "analyze_frame_try cv svc (frame_path rq) (frame_index rq) (timestamp rq) = Inl e"
    for rq :: FrameAnalysisRequest and e
    using that by (simp add: YOLOService_analyze_frame_def)
  show ?thesis
    using run single failed by (auto simp: YOLOService_analyze_frame_index)
qed

theorem analyze_batch_order_and_isolation_witness:
  "(2::nat) < length demo_requests
   \<and> (\<exists>rs. analyze_batch demo_cv (Some demo_service) demo_requests = Inr rs
         \<and> length rs = 5
         \<and> r_frame_index (rs ! 2) = 3
         \<and> rs ! 2 = failed_response 3 1.5
         \<and> analyze_frame demo_cv (Some demo_service) (demo_request ''a.jpg'' 4) = Inr (rs ! 3)
         \<and> quality_score (rs ! 3) = 0.73)"
proof -
  from analyze_batch_order_and_isolation [of demo_cv demo_service demo_requests]
  obtain rs where rs: "analyze_batch demo_cv (Some demo_service) demo_requests = Inr rs"
    and len: "length rs = length demo_requests"
    and each: "\<And>i. i < length demo_requests \<Longrightarrow>
          r_frame_index (rs ! i) = frame_index (demo_requests ! i)
        \<and> analyze_frame demo_cv (Some demo_service) (demo_requests ! i) = Inr (rs ! i)
        \<and> ((\<exists>e. analyze_frame_try demo_cv demo_service (frame_path (demo_requests ! i))
                   (frame_index (demo_requests ! i)) (timestamp (demo_requests ! i)) = Inl e)
             \<longrightarrow> rs ! i = failed_response (frame_index (demo_requests ! i)) (timestamp (demo_requests ! i)))"
    by blast
  have l5: "length demo_requests = 5" by (simp add: demo_requests_def)
  have n2: "demo_requests ! 2 = demo_request ''b.jpg'' 3"
    and n3: "demo_requests ! 3 = demo_request ''a.jpg'' 4"
    by (simp_all add: demo_requests_def)
  have p2: "r_frame_index (rs ! 2) = 3" "rs ! 2 = failed_response 3 1.5"
    using each[of 2] demo_try_b[of 3] by (simp_all add: l5 n2 demo_request_def failed_response_def)
  have s3: "analyze_frame demo_cv (Some demo_service) (demo_request ''a.jpg'' 4) = Inr (rs ! 3)"
    using each[of 3] by (simp add: l5 n3)
  have q3: "quality_score (rs ! 3) = 0.73"
    using s3 demo_a[of 4] by (simp add: analyze_frame_def demo_request_def)
  show ?thesis using rs len l5 p2 s3 q3 by simp
qed


section \<open>The service's single-frame analysis\<close>

text \<open>
  Claim C2. When the frame file does not exist, or does not decode, or the
  model call raises, \<open>YOLOService_analyze_frame\<close> returns the response with
  quality, blur and brightness score 0.0, \<open>has_product\<close> false and no detected
  objects, under the request's frame index and timestamp. The method returns
  a response on every path, so the batch endpoint of an initialised service
  returns a list for every request list: no exception leaves it.
\<close>

theorem analyze_frame_failure_gives_default:
  assumes "\<not> os_path_exists cv path
         \<or> imread cv path = None
         \<or> (\<exists>img e. imread cv path = Some img \<and> model self img (confidence_threshold self) = Inl e)"
  shows "YOLOService_analyze_frame cv self path idx ts =
           \<lparr>r_frame_index = idx, r_timestamp = ts, has_product = False,
            quality_score = 0.0, brightness_score = 0.0, blur_score = 0.0,
            detected_objects = []\<rparr>
       \<and> (\<forall>requests. \<exists>rs. analyze_batch cv (Some self) requests = Inr rs)"
proof -
  have "\<exists>e. analyze_frame_try cv self path idx ts = Inl e"
    using assms by (auto simp: analyze_frame_try_def split: option.splits)
  then have "YOLOService_analyze_frame cv self path idx ts = failed_response idx ts"
    by (auto simp: YOLOService_analyze_frame_def)
  then show ?thesis
    by (simp add: failed_response_def analyze_batch_def)
qed

theorem analyze_frame_failure_gives_default_witness:
  "\<not> os_path_exists demo_cv ''missing.jpg''
   \<and> imread demo_cv ''corrupt.jpg'' = None
   \<and> imread demo_cv ''b.jpg'' = Some 1
   \<and> model demo_service 1 (confidence_threshold demo_service) = Inl (LibraryError ''inference'')
   \<and> YOLOService_analyze_frame demo_cv demo_service ''missing.jpg'' 7 1.5 =
        \<lparr>r_frame_index = 7, r_timestamp = 1.5, has_product = False,
         quality_score = 0, brightness_score = 0, blur_score = 0, detected_objects = []\<rparr>
   \<and> YOLOService_analyze_frame demo_cv demo_service ''corrupt.jpg'' 8 1.5 =
        \<lparr>r_frame_index = 8, r_timestamp = 1.5, has_product = False,
         quality_score = 0, brightness_score = 0, blur_score = 0, detected_objects = []\<rparr>
   \<and> YOLOService_analyze_frame demo_cv demo_service ''b.jpg'' 9 1.5 =
        \<lparr>r_frame_index = 9, r_timestamp = 1.5, has_product = False,
         quality_score = 0, brightness_score = 0, blur_score = 0, detected_objects = []\<rparr>
   \<and> (\<exists>rs. analyze_batch demo_cv (Some demo_service) demo_requests = Inr rs)"
proof -
  have h1: "\<not> os_path_exists demo_cv ''missing.jpg''" by (simp add: demo_cv_def)
  have h2: "imread demo_cv ''corrupt.jpg'' = None" by (simp add: demo_cv_def)
  have h3: "imread demo_cv ''b.jpg'' = Some 1"
    "model demo_service 1 (confidence_threshold demo_service) = Inl (LibraryError ''inference'')"
    by (simp_all add: demo_cv_def demo_service_def)
  show ?thesis
    using analyze_frame_failure_gives_default [of demo_cv "''missing.jpg''" demo_service 7 "1.5"]
      analyze_frame_failure_gives_default [of demo_cv "''corrupt.jpg''" demo_service 8 "1.5"]
      analyze_frame_failure_gives_default [of demo_cv "''b.jpg''" demo_service 9 "1.5"]
      h1 h2 h3
    by simp
qed

text \<open>
  Claim C3. When the \<^verbatim>\<open>try\<close> block of the service's \<open>analyze_frame\<close> completes,
  its result is what the method returns, the quality score is
  \<open>detection_term * 0.4 + blur_score * 0.3 + brightness_score * 0.3\<close> with
  detection term 1.0 when \<open>has_product\<close> holds and 0.3 otherwise, and the blur
  score is \<open>min (laplacian_variance / 1000) 1.0\<close>, the variance being that of
  the Laplacian of the frame's grayscale conversion.
\<close>

theorem service_quality_score_formula:
  assumes "analyze_frame_try cv self path idx ts = Inr r"
  shows "YOLOService_analyze_frame cv self path idx ts = r
       \<and> quality_score r =
           (if has_product r then 1.0 else 0.3) * 0.4 + blur_score r * 0.3 + brightness_score r * 0.3
       \<and> (\<forall>img g. imread cv path = Some img \<longrightarrow> cvtColor cv img = Inr g \<longrightarrow>
            blur_score r = min (np_var (concat (Laplacian cv g)) / 1000) 1.0)"
proof -
  from analyze_frame_try_fields(3)[OF assms] obtain img where
    "imread cv path = Some img" "blur_score r = calculate_blur_score cv img" by blast
  then have "\<forall>img g. imread cv path = Some img \<longrightarrow> cvtColor cv img = Inr g \<longrightarrow>
            blur_score r = min (np_var (concat (Laplacian cv g)) / 1000) 1.0"
    by (simp add: calculate_blur_score_def)
  then show ?thesis
    using assms analyze_frame_try_fields(4)[OF assms]
    by (simp add: YOLOService_analyze_frame_def)
qed

theorem service_quality_score_formula_witness:
  "analyze_frame_try demo_cv demo_service ''d.jpg'' 2 1.5 =
     Inr \<lparr>r_frame_index = 2, r_timestamp = 1.5, has_product = False,
          quality_score = 0.45, brightness_score = 1, blur_score = 0.1, detected_objects = []\<rparr>
   \<and> imread demo_cv ''d.jpg'' = Some 3 \<and> cvtColor demo_cv 3 = Inr [[100, 150]]
   \<and> np_var (concat (Laplacian demo_cv [[100, 150]])) = 100
   \<and> (0.45::real) = 0.3 * 0.4 + 0.1 * 0.3 + 1 * 0.3
   \<and> (0.1::real) = min (100 / 1000) 1.0"
  using service_quality_score_formula [OF demo_try_d [of 2]] demo_try_d [of 2]
  by (simp add: demo_cv_def np_var_def np_mean_def)

text \<open>
  Claim C10. A response produced by a completed analysis has its quality
  score between 0.12 and 1.0, and the method returns quality score 0.0
  exactly when the analysis raised and the default response was returned.
\<close>

theorem service_quality_score_range:
  "(analyze_frame_try cv self path idx ts = Inr r \<longrightarrow>
      0.12 \<le> quality_score r \<and> quality_score r \<le> 1.0)
   \<and> (quality_score (YOLOService_analyze_frame cv self path idx ts) = 0.0
        \<longleftrightarrow> (\<exists>e. analyze_frame_try cv self path idx ts = Inl e))"
proof -
  have a: "0.12 \<le> quality_score r \<and> quality_score r \<le> 1.0"
    if "analyze_frame_try cv self path idx ts = Inr r"
    using that by (rule success_quality_bounds)
  have b: "quality_score (YOLOService_analyze_frame cv self path idx ts) = 0.0
        \<longleftrightarrow> (\<exists>e. analyze_frame_try cv self path idx ts = Inl e)"
  proof (cases "analyze_frame_try cv self path idx ts")
    case (Inl e)
    then show ?thesis by (simp add: YOLOService_analyze_frame_def failed_response_def)
  next
    case (Inr r')
    then show ?thesis
      using success_quality_bounds[OF Inr] by (simp add: YOLOService_analyze_frame_def)
  qed
  show ?thesis using a b by blast
qed

theorem service_quality_score_range_witness:
  "analyze_frame_try demo_cv demo_service ''c.jpg'' 2 1.5 =
     Inr \<lparr>r_frame_index = 2, r_timestamp = 1.5, has_product = False,
          quality_score = 0.42, brightness_score = 0.5, blur_score = 0.5, detected_objects = []\<rparr>
   \<and> (0.12::real) \<le> 0.42 \<and> (0.42::real) \<le> 1.0
   \<and> analyze_frame_try demo_cv demo_service ''b.jpg'' 3 1.5 = Inl (LibraryError ''inference'')
   \<and> quality_score (YOLOService_analyze_frame demo_cv demo_service ''b.jpg'' 3 1.5) = 0"
  using service_quality_score_range [of demo_cv demo_service "''c.jpg''" 2 "1.5"]
    service_quality_score_range [of demo_cv demo_service "''b.jpg''" 3 "1.5"]
    demo_try_c [of 2] demo_try_b [of 3]
  by simp


section \<open>Failure defaults of the service\<close>




text \<open>
  Claim C9, as stated, fails: for a missing file the single-frame endpoint
  raises nothing and returns an ordinary response, the same one it returns
  when the file does not decode or the model fails.
\<close>

theorem not_found_report_counterexample:
  "\<not> os_path_exists demo_cv ''missing.jpg''
   \<and> analyze_frame demo_cv (Some demo_service) (demo_request ''missing.jpg'' 7)
       = Inr (failed_response 7 1.5)
   \<and> analyze_frame demo_cv (Some demo_service) (demo_request ''missing.jpg'' 7)
       = analyze_frame demo_cv (Some demo_service) (demo_request ''corrupt.jpg'' 7)
   \<and> analyze_frame demo_cv (Some demo_service) (demo_request ''missing.jpg'' 7)
       = analyze_frame demo_cv (Some demo_service) (demo_request ''b.jpg'' 7)"
  by (simp add: analyze_frame_def demo_defs svc_defs)

text \<open>
  Claim C9, amended. For a request whose file does not exist the
  single-frame endpoint returns the default response (all scores 0.0, no
  product, no detections). Every result of a completed analysis, with or
  without detections, has quality score at least 0.12 and so differs from
  that response.
\<close>

theorem not_found_gives_default_response:
  assumes "\<not> os_path_exists cv (frame_path request)"
  shows "analyze_frame cv (Some svc) request
           = Inr (failed_response (frame_index request) (timestamp request))
       \<and> (\<forall>path' idx' ts' r.
             analyze_frame_try cv svc path' idx' ts' = Inr r \<longrightarrow>
             0.12 \<le> quality_score r
           \<and> r \<noteq> failed_response (frame_index request) (timestamp request))"
proof -
  have "analyze_frame_try cv svc (frame_path request) (frame_index request) (timestamp request)
          = Inl (FileNotFoundError (frame_path request))"
    using assms by (simp add: analyze_frame_try_def)
  then have a: "analyze_frame cv (Some svc) request
           = Inr (failed_response (frame_index request) (timestamp request))"
    by (simp add: analyze_frame_def YOLOService_analyze_frame_def)
  have b: "0.12 \<le> quality_score r \<and> r \<noteq> failed_response i t"
    if "analyze_frame_try cv svc path' idx' ts' = Inr r" for path' idx' ts' r i t
    using success_quality_bounds[OF that] by (auto simp: failed_response_def)
  show ?thesis using a b by blast
qed

theorem not_found_gives_default_response_witness:
  "\<not> os_path_exists demo_cv (frame_path (demo_request ''missing.jpg'' 7))
   \<and> analyze_frame demo_cv (Some demo_service) (demo_request ''missing.jpg'' 7)
       = Inr (failed_response 7 1.5)
   \<and> analyze_frame_try demo_cv demo_service ''d.jpg'' 7 1.5 =
       Inr \<lparr>r_frame_index = 7, r_timestamp = 1.5, has_product = False,
            quality_score = 0.45, brightness_score = 1, blur_score = 0.1, detected_objects = []\<rparr>
   \<and> \<lparr>r_frame_index = 7, r_timestamp = 1.5, has_product = False,
            quality_score = 0.45, brightness_score = 1, blur_score = 0.1, detected_objects = []\<rparr>
       \<noteq> failed_response 7 1.5"
proof -
  have h: "\<not> os_path_exists demo_cv (frame_path (demo_request ''missing.jpg'' 7))"
    by (simp add: demo_cv_def demo_request_def)
  note t = not_found_gives_default_response [OF h, of demo_service]
  have a: "analyze_frame demo_cv (Some demo_service) (demo_request ''missing.jpg'' 7)
       = Inr (failed_response 7 1.5)"
    using t by (simp add: demo_request_def)
  have b: "r \<noteq> failed_response 7 1.5"
    if "analyze_frame_try demo_cv demo_service ''d.jpg'' 7 1.5 = Inr r" for r
    using t that by (simp add: demo_request_def)
  show ?thesis using h a b [OF demo_try_d [of 7]] demo_try_d [of 7] by simp
qed


section \<open>The composition score\<close>






section \<open>The product-class vocabulary\<close>



lemma service_boxes_has_product:
  assumes "service_boxes nm bs (objs, hp) = Inr (objs', hp')"
    and "hp \<longleftrightarrow> (\<exists>d\<in>set objs. class_name d \<in> YOLOService_product_classes)"
  shows "hp' \<longleftrightarrow> (\<exists>d\<in>set objs'. class_name d \<in> YOLOService_product_classes)"
  using assms
proof (induction bs arbitrary: objs hp)
  case Nil
  then show ?case by auto
next
  case (Cons b bs)
  from Cons.prems(1) obtain cn where cn: "nm (cls b) = Some cn"
    by (auto split: option.splits)
  let ?o = "objs @ [\<lparr>class_name = cn, confidence = conf b, bbox = xyxy b\<rparr>]"
  let ?h = "if cn \<in> YOLOService_product_classes then True else hp"
  have step: "service_boxes nm bs (?o, ?h) = Inr (objs', hp')"
    using Cons.prems(1) cn by simp
  have inv: "?h \<longleftrightarrow> (\<exists>d\<in>set ?o. class_name d \<in> YOLOService_product_classes)"
    using Cons.prems(2) by auto
  show ?case by (rule Cons.IH [OF step inv])
qed

lemma service_results_has_product:
  assumes "service_results nm rs (objs, hp) = Inr (objs', hp')"
    and "hp \<longleftrightarrow> (\<exists>d\<in>set objs. class_name d \<in> YOLOService_product_classes)"
  shows "hp' \<longleftrightarrow> (\<exists>d\<in>set objs'. class_name d \<in> YOLOService_product_classes)"
  using assms
proof (induction rs arbitrary: objs hp)
  case Nil
  then show ?case by auto
next
  case (Cons r rs)
  show ?case
  proof (cases "boxes r")
    case None
    then show ?thesis using Cons by simp
  next
    case (Some bs)
    with Cons.prems(1) obtain o1 h1 where
      b: "service_boxes nm bs (objs, hp) = Inr (o1, h1)" and
      r: "service_results nm rs (o1, h1) = Inr (objs', hp')"
      by (auto split: sum.splits)
    from service_boxes_has_product [OF b Cons.prems(2)] Cons.IH [OF r]
    show ?thesis by blast
  qed
qed

lemma analyzer_boxes_has_product:
  assumes "analyzer_boxes nm bs (objs, hp) = Inr (objs', hp')"
    and "hp \<longleftrightarrow> (\<exists>d\<in>set objs. det_class_name d \<in> FrameAnalyzer_product_classes)"
  shows "hp' \<longleftrightarrow> (\<exists>d\<in>set objs'. det_class_name d \<in> FrameAnalyzer_product_classes)"
  using assms
proof (induction bs arbitrary: objs hp)
  case Nil
  then show ?case by auto
next
  case (Cons b bs)
  from Cons.prems(1) obtain cn x1 y1 x2 y2 where cn: "nm (cls b) = Some cn"
    and xy: "xyxyn b = [x1, y1, x2, y2]"
    by (auto split: option.splits list.splits)
  let ?o = "objs @ [\<lparr>det_class_name = cn, det_confidence = conf b,
                     det_bbox = \<lparr>bbox_x = x1, bbox_y = y1,
                                 bbox_width = x2 - x1, bbox_height = y2 - y1\<rparr>\<rparr>]"
  let ?h = "if cn \<in> FrameAnalyzer_product_classes then True else hp"
  have step: "analyzer_boxes nm bs (?o, ?h) = Inr (objs', hp')"
    using Cons.prems(1) cn xy by simp
  have inv: "?h \<longleftrightarrow> (\<exists>d\<in>set ?o. det_class_name d \<in> FrameAnalyzer_product_classes)"
    using Cons.prems(2) by auto
  show ?case by (rule Cons.IH [OF step inv])
qed

text \<open>
  Claim C6. In every response of the service's \<open>analyze_frame\<close>, and in every
  result the analyzer's \<open>analyze_frame\<close> returns, \<open>has_product\<close> holds exactly
  when some detected object's class name is a member of that module's
  product-class set; membership is equality of strings. So it is false when
  no object is detected and when no detected label is in the set.
\<close>

theorem has_product_iff_vocabulary_member:
  "(has_product (YOLOService_analyze_frame cv svc path idx ts) \<longleftrightarrow>
      (\<exists>d\<in>set (detected_objects (YOLOService_analyze_frame cv svc path idx ts)).
          class_name d \<in> YOLOService_product_classes))
   \<and> (FrameAnalyzer_analyze_frame cv fa path = Inr a \<longrightarrow>
        (a_has_product a \<longleftrightarrow>
          (\<exists>d\<in>set (a_detected_objects a). det_class_name d \<in> FrameAnalyzer_product_classes)))"
proof -
  have svc: "has_product (YOLOService_analyze_frame cv svc path idx ts) \<longleftrightarrow>
      (\<exists>d\<in>set (detected_objects (YOLOService_analyze_frame cv svc path idx ts)).
          class_name d \<in> YOLOService_product_classes)"
  proof (cases "analyze_frame_try cv svc path idx ts")
    case (Inl e)
    then show ?thesis by (simp add: YOLOService_analyze_frame_def failed_response_def)
  next
    case (Inr r)
    then obtain results objs hp where
      "service_results (names svc) results ([], False) = Inr (objs, hp)"
      "has_product r = hp" "detected_objects r = objs"
      by (auto simp: analyze_frame_try_def Let_def
          split: if_splits option.splits sum.splits prod.splits)
    then show ?thesis
      using service_results_has_product [of "names svc" results "[]" False objs hp] Inr
      by (simp add: YOLOService_analyze_frame_def)
  qed
  have fa: "a_has_product a \<longleftrightarrow>
          (\<exists>d\<in>set (a_detected_objects a). det_class_name d \<in> FrameAnalyzer_product_classes)"
    if "FrameAnalyzer_analyze_frame cv fa path = Inr a"
  proof -
    from that have t: "FrameAnalyzer_analyze_frame_try cv fa path = Inr a"
      by (auto simp: FrameAnalyzer_analyze_frame_def split: sum.splits)
    then consider "a_detected_objects a = []" "\<not> a_has_product a"
      | bs where "analyzer_boxes (fa_names fa) bs ([], False)
                    = Inr (a_detected_objects a, a_has_product a)"
      by (auto simp: FrameAnalyzer_analyze_frame_try_def Let_def
          split: option.splits sum.splits prod.splits list.splits)
    then show ?thesis
    proof cases
      case 1
      then show ?thesis by simp
    next
      case 2
      from analyzer_boxes_has_product [OF 2] show ?thesis by simp
    qed
  qed
  show ?thesis using svc fa by blast
qed


lemma bottle_in_analyzer_classes: "''bottle'' \<in> FrameAnalyzer_product_classes"
  by (simp add: FrameAnalyzer_product_classes_def)

lemma demo_analyze_a:
  "FrameAnalyzer_analyze_frame demo_cv demo_analyzer ''a.jpg'' =
     Inr \<lparr>a_detected_objects =
            [\<lparr>det_class_name = ''bottle'', det_confidence = 0.9,
              det_bbox = \<lparr>bbox_x = 0.4, bbox_y = 0.4, bbox_width = 0.2, bbox_height = 0.2\<rparr>\<rparr>],
          a_has_product = True, a_quality_score = 0.34 + 1 / 17, a_blur_score = 0.9,
          a_brightness_score = 1, a_composition_score = 0.6912\<rparr>"
proof -
  have sq: "sqrt 625 = 25" using real_sqrt_abs [of 25] by simp
  show ?thesis
    by (simp add: FrameAnalyzer_analyze_frame_def FrameAnalyzer_analyze_frame_try_def
        demo_analyzer_def demo_cv_def demo_box_def bottle_in_analyzer_classes
        calculate_quality_metrics_def calculate_composition_score_def Let_def
        np_var_def np_mean_def np_std_def pixels_def sq)
qed

theorem has_product_iff_vocabulary_member_witness:
  "has_product (YOLOService_analyze_frame demo_cv demo_service ''a.jpg'' 1 1.5)
   \<and> \<lparr>class_name = ''bottle'', confidence = 0.9, bbox = [40, 40, 60, 60]\<rparr>
        \<in> set (detected_objects (YOLOService_analyze_frame demo_cv demo_service ''a.jpg'' 1 1.5))
   \<and> ''bottle'' \<in> YOLOService_product_classes
   \<and> ''Bottle'' \<notin> YOLOService_product_classes
   \<and> (\<exists>a. FrameAnalyzer_analyze_frame demo_cv demo_analyzer ''a.jpg'' = Inr a
          \<and> a_has_product a
          \<and> (\<exists>d\<in>set (a_detected_objects a). det_class_name d \<in> FrameAnalyzer_product_classes))"
proof -
  note t = has_product_iff_vocabulary_member
    [where cv = demo_cv and svc = demo_service and path = "''a.jpg''" and idx = 1 and ts = "1.5"
       and fa = demo_analyzer]
  have c: "''Bottle'' \<notin> YOLOService_product_classes"
    by (simp add: YOLOService_product_classes_def)
  show ?thesis
    using t demo_a [of 1] demo_analyze_a bottle_in_service_classes bottle_in_analyzer_classes c
    by simp
qed

section \<open>The thumbnail-selection quality metrics\<close>

text \<open>
  Claim C5. When the frame converts to grayscale, \<open>calculate_quality_metrics\<close>
  returns metrics whose blur score is \<open>1 - min (laplacian_variance / 1000) 1\<close>
  and whose overall quality is
  \<open>0.4 * (1 - blur_score) + 0.3 * brightness_score + 0.3 * contrast_score\<close>, that
  is, 0.4 times the sharpness plus the other two terms. Whatever the model
  detects, the analyzer's result carries these metrics as its blur,
  brightness and quality score, and carries the composition score of its
  detections in a field of its own.
\<close>

theorem thumbnail_quality_metrics:
  assumes "cvtColor cv img = Inr g"
  shows "\<exists>qm. calculate_quality_metrics cv img = Inr qm
     \<and> m_blur_score qm = 1 - min (np_var (concat (Laplacian cv g)) / 1000) 1
     \<and> m_overall_quality qm =
         0.4 * (1 - m_blur_score qm) + 0.3 * m_brightness_score qm + 0.3 * m_contrast_score qm
     \<and> m_overall_quality qm =
         0.4 * min (np_var (concat (Laplacian cv g)) / 1000) 1
           + 0.3 * m_brightness_score qm + 0.3 * m_contrast_score qm
     \<and> (\<forall>fa path a. imread cv path = Some img \<longrightarrow>
            FrameAnalyzer_analyze_frame cv fa path = Inr a \<longrightarrow>
              a_blur_score a = m_blur_score qm
            \<and> a_brightness_score a = m_brightness_score qm
            \<and> a_quality_score a = m_overall_quality qm
            \<and> a_composition_score a =
                calculate_composition_score (a_detected_objects a) (shape cv img))"
proof -
  obtain qm where qm: "calculate_quality_metrics cv img = Inr qm"
    using assms by (simp add: calculate_quality_metrics_def Let_def)
  have blur: "m_blur_score qm = 1 - min (np_var (concat (Laplacian cv g)) / 1000) 1"
    and overall: "m_overall_quality qm =
         0.4 * (1 - m_blur_score qm) + 0.3 * m_brightness_score qm + 0.3 * m_contrast_score qm"
    using qm assms by (auto simp: calculate_quality_metrics_def Let_def)
  have sharp: "m_overall_quality qm =
         0.4 * min (np_var (concat (Laplacian cv g)) / 1000) 1
           + 0.3 * m_brightness_score qm + 0.3 * m_contrast_score qm"
    using blur overall by simp
  have frame: "a_blur_score a = m_blur_score qm
            \<and> a_brightness_score a = m_brightness_score qm
            \<and> a_quality_score a = m_overall_quality qm
            \<and> a_composition_score a =
                calculate_composition_score (a_detected_objects a) (shape cv img)"
    if "imread cv path = Some img" "FrameAnalyzer_analyze_frame cv fa path = Inr a"
    for fa path a
    using that qm
    by (auto simp: FrameAnalyzer_analyze_frame_def FrameAnalyzer_analyze_frame_try_def Let_def
        split: sum.splits prod.splits)
  show ?thesis using qm blur overall sharp frame by blast
qed

theorem thumbnail_quality_metrics_witness:
  "cvtColor demo_cv 0 = Inr [[100, 150]]
   \<and> imread demo_cv ''a.jpg'' = Some 0
   \<and> np_var (concat (Laplacian demo_cv [[100, 150]])) = 100
   \<and> (\<exists>a. FrameAnalyzer_analyze_frame demo_cv demo_analyzer ''a.jpg'' = Inr a
         \<and> a_blur_score a = 1 - min (100 / 1000) 1
         \<and> a_quality_score a = 0.4 * (1 - a_blur_score a) + 0.3 * a_brightness_score a + 0.3 * (10 / 51)
         \<and> a_composition_score a = 0.6912)"
proof -
  have h: "cvtColor demo_cv 0 = Inr [[100, 150]]" by (simp add: demo_cv_def)
  have i: "imread demo_cv ''a.jpg'' = Some 0" by (simp add: demo_cv_def)
  have v: "np_var (concat (Laplacian demo_cv [[100, 150]])) = 100"
    by (simp add: demo_cv_def np_var_def np_mean_def)
  from thumbnail_quality_metrics [OF h] obtain qm :: quality_metrics where
    b: "m_blur_score qm = 1 - min (np_var (concat (Laplacian demo_cv [[100, 150]])) / 1000) 1"
    and f: "\<And>path a. imread demo_cv path = Some 0 \<Longrightarrow>
            FrameAnalyzer_analyze_frame demo_cv demo_analyzer path = Inr a \<Longrightarrow>
              a_blur_score a = m_blur_score qm"
    by blast
  have "a_blur_score \<lparr>a_detected_objects =
            [\<lparr>det_class_name = ''bottle'', det_confidence = 0.9,
              det_bbox = \<lparr>bbox_x = 0.4, bbox_y = 0.4, bbox_width = 0.2, bbox_height = 0.2\<rparr>\<rparr>],
          a_has_product = True, a_quality_score = 0.34 + 1 / 17, a_blur_score = 0.9,
          a_brightness_score = 1, a_composition_score = 0.6912\<rparr> = 1 - min (100 / 1000) 1"
    using f [OF i demo_analyze_a] b v by simp
  then show ?thesis using h i v demo_analyze_a by simp
qed


end
